theory Spec2Isabelle
  imports Complex_Main "HOL-Library.Word"
begin

section \<open>JavaScript values used by the chat component\<close>

text \<open>
  A JavaScript string is a sequence of UTF-16 code units. \<open>js\<close> turns an ASCII literal
  of the source into that representation.
\<close>

type_synonym jsstring = "16 word list"

definition js :: "string \<Rightarrow> jsstring" where
  "js s = map of_char s"

text \<open>
  \<open>String.prototype.trim\<close> removes, from both ends, the code units that ECMAScript
  calls WhiteSpace or LineTerminator.
\<close>

definition isWhiteSpace :: "16 word \<Rightarrow> bool" where
  "isWhiteSpace c = (c \<in> set [0x0009, 0x000A, 0x000B, 0x000C, 0x000D, 0x0020, 0x00A0,
     0x1680, 0x2000, 0x2001, 0x2002, 0x2003, 0x2004, 0x2005, 0x2006, 0x2007, 0x2008,
     0x2009, 0x200A, 0x2028, 0x2029, 0x202F, 0x205F, 0x3000, 0xFEFF])"

definition trim :: "jsstring \<Rightarrow> jsstring" where
  "trim s = rev (dropWhile isWhiteSpace (rev (dropWhile isWhiteSpace s)))"

text \<open>
  The value \<open>JSON.parse\<close> gives for a number is a double: a rational, or an infinity when
  the literal is out of range. The code only observes whether it is zero.
\<close>

datatype jsnumber = Num rat | PosInfinity | NegInfinity

text \<open>
  The values \<open>response.json()\<close> can produce. An object keeps its members in the order of
  the text; of two members with the same key the later one is the property's value.
\<close>

datatype json =
    JNull
  | JBool bool
  | JNumber jsnumber
  | JString jsstring
  | JArray "json list"
  | JObject "(jsstring \<times> json) list"

datatype js_error = TypeError | SyntaxError | Error jsstring

text \<open>ToBoolean on these values (NaN cannot come out of JSON).\<close>

fun truthy :: "json \<Rightarrow> bool" where
  "truthy JNull = False"
| "truthy (JBool b) = b"
| "truthy (JNumber n) = (n \<noteq> Num 0)"
| "truthy (JString s) = (s \<noteq> [])"
| "truthy (JArray xs) = True"
| "truthy (JObject kvs) = True"

text \<open>
  The own property \<open>answer\<close> of a parsed body, when it has one. Only an object can have
  it: a string, a number, a boolean and an array have neither an own nor an inherited
  property of that name.
\<close>

fun answer_field :: "json \<Rightarrow> json option" where
  "answer_field (JObject kvs) = map_of (rev kvs) (js ''answer'')"
| "answer_field v = None"

text \<open>
  The expression \<open>data.answer\<close>: reading a property of \<open>null\<close> throws a TypeError, a
  missing property reads as \<open>undefined\<close> (here \<open>None\<close>).
\<close>

fun get_answer :: "json \<Rightarrow> js_error + json option" where
  "get_answer JNull = Inl TypeError"
| "get_answer data = Inr (answer_field data)"

text \<open>The operator \<open>||\<close> with a possibly undefined left operand.\<close>

fun or_else :: "json option \<Rightarrow> json \<Rightarrow> json" where
  "or_else None d = d"
| "or_else (Some v) d = (if truthy v then v else d)"

section \<open>The network and the console\<close>

datatype http_method = GET | POST

record request =
  "method" :: http_method
  url :: jsstring
  headers :: "(jsstring \<times> jsstring) list"
  body :: "json option"

text \<open>
  A response: its status, and how the promise of \<open>response.json()\<close> settles (\<open>Inl\<close>
  when it rejects: a SyntaxError for a body that is not JSON, a TypeError for a body
  that cannot be read). \<open>response.ok\<close> is true for the statuses 200 to 299.
\<close>

record response =
  status :: nat
  json :: "js_error + json"

definition ok :: "response \<Rightarrow> bool" where
  "ok r = (200 \<le> status r \<and> status r \<le> 299)"

text \<open>How the promise returned by \<open>fetch\<close> settles.\<close>

datatype fetch_result = Rejected | Resolved response

datatype console_entry =
    ConsoleLog jsstring
  | ConsoleError jsstring js_error

section \<open>The component state\<close>

datatype sender = User | AI

record message =
  "text" :: json
  sender :: sender
  timestamp :: int

text \<open>
  The four \<open>useState\<close> cells of \<open>ChatInterface\<close>, followed by what the component does
  to the outside: the requests it has issued, the promises of those requests that have
  not settled yet, and the console output. \<open>env_API_URL\<close> is the build-time value of
  \<open>process.env.REACT_APP_API_URL\<close>.
\<close>

record world =
  messages :: "message list"
  inputMessage :: jsstring
  isLoading :: bool
  isServerAwake :: bool
  env_API_URL :: "jsstring option"
  requests :: "request list"
  chat_pending :: nat
  ping_pending :: nat
  console :: "console_entry list"

definition API_URL :: "world \<Rightarrow> jsstring" where
  "API_URL w = (case env_API_URL w of
       None \<Rightarrow> js ''http://localhost:3001''
     | Some u \<Rightarrow> if u \<noteq> [] then u else js ''http://localhost:3001'')"

definition initial :: "jsstring option \<Rightarrow> world" where
  "initial env = \<lparr>messages = [], inputMessage = [], isLoading = False,
     isServerAwake = False, env_API_URL = env, requests = [], chat_pending = 0,
     ping_pending = 0, console = []\<rparr>"

section \<open>wakeUpServer\<close>

definition ping_request :: "world \<Rightarrow> request" where
  "ping_request w = \<lparr>method = GET, url = API_URL w @ js ''/ping'', headers = [],
     body = None\<rparr>"

text \<open>The call up to its \<open>await\<close>: the request is issued.\<close>

definition wakeUpServer_begin :: "world \<Rightarrow> world" where
  "wakeUpServer_begin w =
     w\<lparr>requests := requests w @ [ping_request w], ping_pending := Suc (ping_pending w)\<rparr>"

definition wakeUpServer_try :: "fetch_result \<Rightarrow> world \<Rightarrow> js_error + world" where
  "wakeUpServer_try res w =
     (case res of
        Rejected \<Rightarrow> Inl TypeError
      | Resolved response \<Rightarrow>
          if ok response
          then Inr (w\<lparr>isServerAwake := True,
                      console := console w @ [ConsoleLog (js ''Server is awake'')]\<rparr>)
          else Inr w)"

text \<open>The rest of the call, once the request has settled; \<open>Inl\<close> is a rejected promise.\<close>

definition wakeUpServer_resume :: "fetch_result \<Rightarrow> world \<Rightarrow> js_error + world" where
  "wakeUpServer_resume res w =
     (case wakeUpServer_try res w of
        Inr w' \<Rightarrow> Inr w'
      | Inl error \<Rightarrow>
          Inr (w\<lparr>console := console w @
                 [ConsoleLog (js ''Server is starting up, might take a minute...'')]\<rparr>))"

text \<open>Mounting the component: the initial state, and the effect that runs once.\<close>

definition mount :: "jsstring option \<Rightarrow> world" where
  "mount env = wakeUpServer_begin (initial env)"

section \<open>handleSendMessage\<close>

text \<open>
  The request of line 63. Its body is the text \<open>JSON.stringify\<close> gives for the object
  \<open>{ question: inputMessage }\<close>; the model keeps the object that text denotes.
\<close>

definition chat_request :: "world \<Rightarrow> request" where
  "chat_request w = \<lparr>method = POST, url = API_URL w @ js ''/chat'',
     headers = [(js ''Content-Type'', js ''application/json'')],
     body = Some (JObject [(js ''question'', JString (inputMessage w))])\<rparr>"

definition fallback_notice :: jsstring where
  "fallback_notice = js ''Sorry, I could not process your request.''"

definition error_notice :: jsstring where
  "error_notice = js ''Sorry, there was an error processing your request. Please try again.''"

text \<open>
  The call up to its first \<open>await\<close>: the guard, the three state updates and the request.
  \<open>now\<close> is what \<open>new Date()\<close> returns.
\<close>

definition handleSendMessage_begin :: "int \<Rightarrow> world \<Rightarrow> world" where
  "handleSendMessage_begin now w =
     (if \<not> truthy (JString (trim (inputMessage w))) \<or> isLoading w then w
      else
        let newMessage = \<lparr>text = JString (inputMessage w), sender = User, timestamp = now\<rparr>
        in w\<lparr>messages := messages w @ [newMessage],
              inputMessage := [],
              isLoading := True,
              requests := requests w @ [chat_request w],
              chat_pending := Suc (chat_pending w)\<rparr>)"

text \<open>The body of \<open>try\<close> after the request has settled.\<close>

definition handleSendMessage_try :: "fetch_result \<Rightarrow> int \<Rightarrow> world \<Rightarrow> js_error + world" where
  "handleSendMessage_try res now w =
     (case res of
        Rejected \<Rightarrow> Inl TypeError
      | Resolved response \<Rightarrow>
          if \<not> ok response then Inl (Error (js ''Failed to get response from the server''))
          else
            (case json response of
               Inl e \<Rightarrow> Inl e
             | Inr data \<Rightarrow>
                 (case get_answer data of
                    Inl e \<Rightarrow> Inl e
                  | Inr answer \<Rightarrow>
                      let aiResponse = \<lparr>text = or_else answer (JString fallback_notice),
                                        sender = AI, timestamp = now\<rparr>
                      in Inr (w\<lparr>messages := messages w @ [aiResponse]\<rparr>))))"

definition handleSendMessage_catch :: "js_error \<Rightarrow> int \<Rightarrow> world \<Rightarrow> world" where
  "handleSendMessage_catch error now w =
     (let errorMessage = \<lparr>text = JString error_notice, sender = AI, timestamp = now\<rparr>
      in w\<lparr>console := console w @ [ConsoleError (js ''Error:'') error],
            messages := messages w @ [errorMessage]\<rparr>)"

text \<open>
  The rest of the call: \<open>try\<close>, \<open>catch\<close>, \<open>finally\<close>. \<open>Inl\<close> is a rejected promise.
\<close>

definition handleSendMessage_resume :: "fetch_result \<Rightarrow> int \<Rightarrow> world \<Rightarrow> js_error + world" where
  "handleSendMessage_resume res now w =
     (let w1 = (case handleSendMessage_try res now w of
                  Inr w' \<Rightarrow> w'
                | Inl error \<Rightarrow> handleSendMessage_catch error now w)
      in Inr (w1\<lparr>isLoading := False\<rparr>))"

section \<open>Sessions\<close>

text \<open>
  What can happen to a mounted component: the input is set (typing, or one of the
  suggestion buttons), the send handler is called (button or Enter), and a request
  that is in flight settles. Each handler call sees the state the previous event left.
  An event that cannot happen (a request settling when none is in flight) has no
  successor state; neither has one after which a handler's promise is rejected.
\<close>

datatype event =
    SetInputMessage jsstring
  | SendMessage int
  | ChatSettled fetch_result int
  | PingSettled fetch_result

fun is_ChatSettled :: "event \<Rightarrow> bool" where
  "is_ChatSettled (ChatSettled res now) = True"
| "is_ChatSettled e = False"

fun fire :: "event \<Rightarrow> world \<Rightarrow> world option" where
  "fire (SetInputMessage t) w = Some (w\<lparr>inputMessage := t\<rparr>)"
| "fire (SendMessage now) w = Some (handleSendMessage_begin now w)"
| "fire (ChatSettled res now) w =
     (if chat_pending w = 0 then None
      else (case handleSendMessage_resume res now (w\<lparr>chat_pending := chat_pending w - 1\<rparr>) of
              Inl e \<Rightarrow> None
            | Inr w' \<Rightarrow> Some w'))"
| "fire (PingSettled res) w =
     (if ping_pending w = 0 then None
      else (case wakeUpServer_resume res (w\<lparr>ping_pending := ping_pending w - 1\<rparr>) of
              Inl e \<Rightarrow> None
            | Inr w' \<Rightarrow> Some w'))"

fun run :: "event list \<Rightarrow> world \<Rightarrow> world option" where
  "run [] w = Some w"
| "run (e # es) w = (case fire e w of None \<Rightarrow> None | Some w' \<Rightarrow> run es w')"

text \<open>The senders of a transcript alternate, the first one being \<open>s\<close>.\<close>

fun opposite :: "sender \<Rightarrow> sender" where
  "opposite User = AI"
| "opposite AI = User"

fun alternating :: "sender \<Rightarrow> sender list \<Rightarrow> bool" where
  "alternating s [] = True"
| "alternating s (x # xs) = (x = s \<and> alternating (opposite s) xs)"

text \<open>
  The invariant of the submission cycle: the senders alternate from a user message, a
  reply is awaited exactly when the transcript has odd length, and then exactly one
  chat request is in flight.
\<close>

definition chat_inv :: "world \<Rightarrow> bool" where
  "chat_inv w =
     (alternating User (map sender (messages w))
      \<and> isLoading w = odd (length (messages w))
      \<and> chat_pending w = (if isLoading w then 1 else 0))"

section \<open>Example sessions\<close>

text \<open>
  Concrete sessions of a component built without \<open>REACT_APP_API_URL\<close>, and the states
  they end in. The theorems below are instantiated at them.
\<close>

text \<open>"Hi" is submitted, the request is rejected, then "Yo" is typed.\<close>

definition failed_cycle :: "event list" where
  "failed_cycle =
     [SetInputMessage (js ''Hi''), SendMessage 1, ChatSettled Rejected 2,
      SetInputMessage (js ''Yo'')]"

definition after_failed_cycle :: world where
  "after_failed_cycle =
     \<lparr>messages = [\<lparr>text = JString (js ''Hi''), sender = User, timestamp = 1\<rparr>,
         \<lparr>text = JString (js ''Sorry, there was an error processing your request. Please try again.''), sender = AI, timestamp = 2\<rparr>],
      inputMessage = js ''Yo'', isLoading = False, isServerAwake = False, env_API_URL = None,
      requests = [\<lparr>method = GET, url = js ''http://localhost:3001/ping'', headers = [], body = None\<rparr>,
         \<lparr>method = POST, url = js ''http://localhost:3001/chat'',
          headers = [(js ''Content-Type'', js ''application/json'')],
          body = Some (JObject [(js ''question'', JString (js ''Hi''))])\<rparr>],
      chat_pending = 0, ping_pending = 1,
      console = [ConsoleError (js ''Error:'') TypeError]\<rparr>"

text \<open>"Hi" is submitted and the request is still in flight.\<close>

definition open_cycle :: "event list" where
  "open_cycle = [SetInputMessage (js ''Hi''), SendMessage 1]"

definition awaiting_reply :: world where
  "awaiting_reply =
     \<lparr>messages = [\<lparr>text = JString (js ''Hi''), sender = User, timestamp = 1\<rparr>],
      inputMessage = [], isLoading = True, isServerAwake = False, env_API_URL = None,
      requests = [\<lparr>method = GET, url = js ''http://localhost:3001/ping'', headers = [], body = None\<rparr>,
         \<lparr>method = POST, url = js ''http://localhost:3001/chat'',
          headers = [(js ''Content-Type'', js ''application/json'')],
          body = Some (JObject [(js ''question'', JString (js ''Hi''))])\<rparr>],
      chat_pending = 1, ping_pending = 1,
      console = []\<rparr>"

text \<open>
  "Hi" has been typed; after it is submitted, more is typed, the handler is called
  again and the probe is rejected before the chat request settles.
\<close>

definition typed_Hi :: world where
  "typed_Hi = (mount None)\<lparr>inputMessage := js ''Hi''\<rparr>"

definition meanwhile :: "event list" where
  "meanwhile = [SetInputMessage (js ''more''), SendMessage 2, PingSettled Rejected]"

definition before_settling :: world where
  "before_settling =
     \<lparr>messages = [\<lparr>text = JString (js ''Hi''), sender = User, timestamp = 1\<rparr>],
      inputMessage = js ''more'', isLoading = True, isServerAwake = False, env_API_URL = None,
      requests = [\<lparr>method = GET, url = js ''http://localhost:3001/ping'', headers = [], body = None\<rparr>,
         \<lparr>method = POST, url = js ''http://localhost:3001/chat'',
          headers = [(js ''Content-Type'', js ''application/json'')],
          body = Some (JObject [(js ''question'', JString (js ''Hi''))])\<rparr>],
      chat_pending = 1, ping_pending = 0,
      console = [ConsoleLog (js ''Server is starting up, might take a minute...'')]\<rparr>"

text \<open>The probe resolves with status 204.\<close>

definition probe_succeeds :: "event list" where
  "probe_succeeds = [PingSettled (Resolved \<lparr>status = 204, json = Inl SyntaxError\<rparr>)]"

definition after_probe_succeeds :: world where
  "after_probe_succeeds =
     \<lparr>messages = [],
      inputMessage = [], isLoading = False, isServerAwake = True, env_API_URL = None,
      requests = [\<lparr>method = GET, url = js ''http://localhost:3001/ping'', headers = [], body = None\<rparr>],
      chat_pending = 0, ping_pending = 0,
      console = [ConsoleLog (js ''Server is awake'')]\<rparr>"

text \<open>The probe resolves with status 503; afterwards a question is answered.\<close>

definition probe_fails :: "event list" where
  "probe_fails =
     [PingSettled (Resolved \<lparr>status = 503, json = Inl SyntaxError\<rparr>),
      SetInputMessage (js ''Hi''), SendMessage 1,
      ChatSettled (Resolved \<lparr>status = 200,
        json = Inr (JObject [(js ''answer'', JString (js ''Ok''))])\<rparr>) 2]"

definition after_probe_fails :: world where
  "after_probe_fails =
     \<lparr>messages = [\<lparr>text = JString (js ''Hi''), sender = User, timestamp = 1\<rparr>,
         \<lparr>text = JString (js ''Ok''), sender = AI, timestamp = 2\<rparr>],
      inputMessage = [], isLoading = False, isServerAwake = False, env_API_URL = None,
      requests = [\<lparr>method = GET, url = js ''http://localhost:3001/ping'', headers = [], body = None\<rparr>,
         \<lparr>method = POST, url = js ''http://localhost:3001/chat'',
          headers = [(js ''Content-Type'', js ''application/json'')],
          body = Some (JObject [(js ''question'', JString (js ''Hi''))])\<rparr>],
      chat_pending = 0, ping_pending = 0,
      console = []\<rparr>"

section \<open>The guard of handleSendMessage\<close>

text \<open>
  Claim C3. A call of the send handler while a reply is awaited, or with an input whose
  trim is empty, leaves the whole state as it is: the transcript, the input and the
  loading flag are unchanged, and no request is issued (the list of issued requests
  and the number of requests in flight are part of the state).
\<close>

theorem submit_guard_noop:
  "trim (inputMessage w) = [] \<or> isLoading w \<Longrightarrow>
     handleSendMessage_begin now w = w \<and> fire (SendMessage now) w = Some w"
  by (auto simp: handleSendMessage_begin_def)

theorem submit_guard_noop_witness:
  "(trim (inputMessage ((mount None)\<lparr>inputMessage := js '' ''\<rparr>)) = []
      \<or> isLoading ((mount None)\<lparr>inputMessage := js '' ''\<rparr>))
   \<and> fire (SendMessage 5) ((mount None)\<lparr>inputMessage := js '' ''\<rparr>)
       = Some ((mount None)\<lparr>inputMessage := js '' ''\<rparr>)
   \<and> (trim (inputMessage ((mount None)\<lparr>inputMessage := js ''Hi'', isLoading := True\<rparr>)) = []
      \<or> isLoading ((mount None)\<lparr>inputMessage := js ''Hi'', isLoading := True\<rparr>))
   \<and> fire (SendMessage 5) ((mount None)\<lparr>inputMessage := js ''Hi'', isLoading := True\<rparr>)
       = Some ((mount None)\<lparr>inputMessage := js ''Hi'', isLoading := True\<rparr>)"
  using submit_guard_noop [of "(mount None)\<lparr>inputMessage := js '' ''\<rparr>" 5]
    submit_guard_noop [of "(mount None)\<lparr>inputMessage := js ''Hi'', isLoading := True\<rparr>" 5]
  by (simp add: trim_def js_def isWhiteSpace_def)

section \<open>The synchronous part of a submission\<close>

text \<open>
  Claim C6. A call of the send handler with an input whose trim is not empty, while no
  reply is awaited, does the following before it first suspends: it appends one user
  message with the raw input and the current time, empties the input, sets the loading
  flag, and issues one POST to \<open>/chat\<close> whose JSON body is the object with the single
  member \<open>question\<close> holding the raw input. Nothing else changes.
\<close>

theorem submit_effect:
  "trim (inputMessage w) \<noteq> [] \<Longrightarrow> \<not> isLoading w \<Longrightarrow>
     handleSendMessage_begin now w =
       w\<lparr>messages := messages w @
             [\<lparr>text = JString (inputMessage w), sender = User, timestamp = now\<rparr>],
         inputMessage := [],
         isLoading := True,
         requests := requests w @
             [\<lparr>method = POST, url = API_URL w @ js ''/chat'',
               headers = [(js ''Content-Type'', js ''application/json'')],
               body = Some (JObject [(js ''question'', JString (inputMessage w))])\<rparr>],
         chat_pending := Suc (chat_pending w)\<rparr>"
  by (simp add: handleSendMessage_begin_def chat_request_def)

theorem submit_effect_witness:
  "trim (inputMessage ((initial None)\<lparr>inputMessage := js '' Hi''\<rparr>)) \<noteq> []
   \<and> \<not> isLoading ((initial None)\<lparr>inputMessage := js '' Hi''\<rparr>)
   \<and> handleSendMessage_begin 7 ((initial None)\<lparr>inputMessage := js '' Hi''\<rparr>) =
       \<lparr>messages = [\<lparr>text = JString (js '' Hi''), sender = User, timestamp = 7\<rparr>],
        inputMessage = [], isLoading = True, isServerAwake = False, env_API_URL = None,
        requests = [\<lparr>method = POST, url = js ''http://localhost:3001/chat'',
               headers = [(js ''Content-Type'', js ''application/json'')],
               body = Some (JObject [(js ''question'', JString (js '' Hi''))])\<rparr>],
        chat_pending = 1, ping_pending = 0, console = []\<rparr>"
  using submit_effect [of "(initial None)\<lparr>inputMessage := js '' Hi''\<rparr>" 7]
  by (simp add: initial_def API_URL_def trim_def js_def isWhiteSpace_def)

section \<open>How a submission ends\<close>

text \<open>
  Claim C4. When the request is rejected (a transport failure) or resolves with a
  status outside 200 to 299, the rest of the handler logs the error with
  \<open>console.error\<close>, appends the assistant message
  "Sorry, there was an error processing your request. Please try again.", clears the
  loading flag, and its promise is fulfilled: no error reaches the caller.
\<close>

theorem chat_failure_notice:
  "res = Rejected \<or> (\<exists>r. res = Resolved r \<and> \<not> ok r) \<Longrightarrow>
     handleSendMessage_resume res now w =
       Inr (w\<lparr>console := console w @
                [ConsoleError (js ''Error:'')
                   (case res of
                      Rejected \<Rightarrow> TypeError
                    | Resolved r \<Rightarrow> Error (js ''Failed to get response from the server''))],
              messages := messages w @
                [\<lparr>text = JString
                    (js ''Sorry, there was an error processing your request. Please try again.''),
                  sender = AI, timestamp = now\<rparr>],
              isLoading := False\<rparr>)"
  by (auto simp: handleSendMessage_resume_def handleSendMessage_try_def
      handleSendMessage_catch_def error_notice_def)

theorem chat_failure_notice_witness:
  "(Rejected = Rejected \<or> (\<exists>r. Rejected = Resolved r \<and> \<not> ok r))
   \<and> handleSendMessage_resume Rejected 2
        (handleSendMessage_begin 1 ((initial None)\<lparr>inputMessage := js ''Hi''\<rparr>)) =
       Inr \<lparr>messages =
              [\<lparr>text = JString (js ''Hi''), sender = User, timestamp = 1\<rparr>,
               \<lparr>text = JString
                  (js ''Sorry, there was an error processing your request. Please try again.''),
                sender = AI, timestamp = 2\<rparr>],
            inputMessage = [], isLoading = False, isServerAwake = False,
            env_API_URL = None,
            requests = [\<lparr>method = POST, url = js ''http://localhost:3001/chat'',
               headers = [(js ''Content-Type'', js ''application/json'')],
               body = Some (JObject [(js ''question'', JString (js ''Hi''))])\<rparr>],
            chat_pending = 1, ping_pending = 0,
            console = [ConsoleError (js ''Error:'') TypeError]\<rparr>
   \<and> (Resolved \<lparr>status = 500, json = Inr (JObject [(js ''answer'', JString (js ''x''))])\<rparr>
         = Rejected
       \<or> (\<exists>r. Resolved \<lparr>status = 500,
                   json = Inr (JObject [(js ''answer'', JString (js ''x''))])\<rparr> = Resolved r
              \<and> \<not> ok r))
   \<and> handleSendMessage_resume
        (Resolved \<lparr>status = 500, json = Inr (JObject [(js ''answer'', JString (js ''x''))])\<rparr>) 2
        (handleSendMessage_begin 1 ((initial None)\<lparr>inputMessage := js ''Hi''\<rparr>)) =
       Inr \<lparr>messages =
              [\<lparr>text = JString (js ''Hi''), sender = User, timestamp = 1\<rparr>,
               \<lparr>text = JString
                  (js ''Sorry, there was an error processing your request. Please try again.''),
                sender = AI, timestamp = 2\<rparr>],
            inputMessage = [], isLoading = False, isServerAwake = False,
            env_API_URL = None,
            requests = [\<lparr>method = POST, url = js ''http://localhost:3001/chat'',
               headers = [(js ''Content-Type'', js ''application/json'')],
               body = Some (JObject [(js ''question'', JString (js ''Hi''))])\<rparr>],
            chat_pending = 1, ping_pending = 0,
            console = [ConsoleError (js ''Error:'')
                         (Error (js ''Failed to get response from the server''))]\<rparr>"
  using chat_failure_notice [of Rejected 2
      "handleSendMessage_begin 1 ((initial None)\<lparr>inputMessage := js ''Hi''\<rparr>)"]
    chat_failure_notice
      [of "Resolved \<lparr>status = 500, json = Inr (JObject [(js ''answer'', JString (js ''x''))])\<rparr>"
        2 "handleSendMessage_begin 1 ((initial None)\<lparr>inputMessage := js ''Hi''\<rparr>)"]
  by (simp add: ok_def handleSendMessage_begin_def chat_request_def initial_def API_URL_def
      trim_def js_def isWhiteSpace_def)

text \<open>
  Claim C2, as stated, fails: a 2xx response whose body has the answer field \<open>""\<close>
  yields the fallback notice, not the empty answer.
\<close>

theorem answer_text_counterexample:
  "ok \<lparr>status = 200, json = Inr (JObject [(js ''answer'', JString [])])\<rparr>
   \<and> answer_field (JObject [(js ''answer'', JString [])]) = Some (JString [])
   \<and> handleSendMessage_resume
        (Resolved \<lparr>status = 200, json = Inr (JObject [(js ''answer'', JString [])])\<rparr>) 2
        (handleSendMessage_begin 1 ((initial None)\<lparr>inputMessage := js ''Hi''\<rparr>)) =
       Inr \<lparr>messages =
              [\<lparr>text = JString (js ''Hi''), sender = User, timestamp = 1\<rparr>,
               \<lparr>text = JString (js ''Sorry, I could not process your request.''),
                sender = AI, timestamp = 2\<rparr>],
            inputMessage = [], isLoading = False, isServerAwake = False,
            env_API_URL = None,
            requests = [\<lparr>method = POST, url = js ''http://localhost:3001/chat'',
               headers = [(js ''Content-Type'', js ''application/json'')],
               body = Some (JObject [(js ''question'', JString (js ''Hi''))])\<rparr>],
            chat_pending = 1, ping_pending = 0, console = []\<rparr>
   \<and> JString (js ''Sorry, I could not process your request.'') \<noteq> JString []"
  by (simp add: handleSendMessage_resume_def handleSendMessage_try_def
      fallback_notice_def ok_def handleSendMessage_begin_def chat_request_def initial_def API_URL_def
      trim_def js_def isWhiteSpace_def)

text \<open>
  Claim C2, amended. When the request resolves with a status in 200 to 299 and the body
  has an answer field whose value is truthy (for a string: not empty), the rest of the
  handler appends one assistant message whose text is exactly that value, and clears
  the loading flag.
\<close>

theorem truthy_answer_text:
  "ok r \<Longrightarrow> json r = Inr data \<Longrightarrow> answer_field data = Some v \<Longrightarrow> truthy v \<Longrightarrow>
     handleSendMessage_resume (Resolved r) now w =
       Inr (w\<lparr>messages := messages w @ [\<lparr>text = v, sender = AI, timestamp = now\<rparr>],
              isLoading := False\<rparr>)"
  by (cases data) (auto simp: handleSendMessage_resume_def handleSendMessage_try_def)

theorem truthy_answer_text_witness:
  "ok \<lparr>status = 200,
       json = Inr (JObject [(js ''answer'', JString (js ''Bring wool or synthetic layers.''))])\<rparr>
   \<and> json \<lparr>status = 200,
       json = Inr (JObject [(js ''answer'', JString (js ''Bring wool or synthetic layers.''))])\<rparr>
       = Inr (JObject [(js ''answer'', JString (js ''Bring wool or synthetic layers.''))])
   \<and> answer_field (JObject [(js ''answer'', JString (js ''Bring wool or synthetic layers.''))])
       = Some (JString (js ''Bring wool or synthetic layers.''))
   \<and> truthy (JString (js ''Bring wool or synthetic layers.''))
   \<and> handleSendMessage_resume
        (Resolved \<lparr>status = 200,
           json = Inr (JObject [(js ''answer'', JString (js ''Bring wool or synthetic layers.''))])\<rparr>)
        2 (handleSendMessage_begin 1 ((initial None)\<lparr>inputMessage := js ''Hi''\<rparr>)) =
       Inr \<lparr>messages =
              [\<lparr>text = JString (js ''Hi''), sender = User, timestamp = 1\<rparr>,
               \<lparr>text = JString (js ''Bring wool or synthetic layers.''),
                sender = AI, timestamp = 2\<rparr>],
            inputMessage = [], isLoading = False, isServerAwake = False,
            env_API_URL = None,
            requests = [\<lparr>method = POST, url = js ''http://localhost:3001/chat'',
               headers = [(js ''Content-Type'', js ''application/json'')],
               body = Some (JObject [(js ''question'', JString (js ''Hi''))])\<rparr>],
            chat_pending = 1, ping_pending = 0, console = []\<rparr>"
  using truthy_answer_text
      [of "\<lparr>status = 200,
             json = Inr (JObject [(js ''answer'', JString (js ''Bring wool or synthetic layers.''))])\<rparr>"
        "JObject [(js ''answer'', JString (js ''Bring wool or synthetic layers.''))]"
        "JString (js ''Bring wool or synthetic layers.'')" 2
        "handleSendMessage_begin 1 ((initial None)\<lparr>inputMessage := js ''Hi''\<rparr>)"]
  by (simp add: ok_def handleSendMessage_begin_def chat_request_def initial_def API_URL_def
      trim_def js_def isWhiteSpace_def)

text \<open>
  Claim C5, as stated, fails: the body \<open>null\<close> has no answer field, and reading
  \<open>data.answer\<close> of it throws, so the message is the error notice and the error is
  logged.
\<close>

theorem missing_answer_counterexample:
  "ok \<lparr>status = 200, json = Inr JNull\<rparr>
   \<and> answer_field JNull = None
   \<and> handleSendMessage_resume (Resolved \<lparr>status = 200, json = Inr JNull\<rparr>) 2
        (handleSendMessage_begin 1 ((initial None)\<lparr>inputMessage := js ''Hi''\<rparr>)) =
       Inr \<lparr>messages =
              [\<lparr>text = JString (js ''Hi''), sender = User, timestamp = 1\<rparr>,
               \<lparr>text = JString (js ''Sorry, there was an error processing your request. Please try again.''),
                sender = AI, timestamp = 2\<rparr>],
            inputMessage = [], isLoading = False, isServerAwake = False,
            env_API_URL = None,
            requests = [\<lparr>method = POST, url = js ''http://localhost:3001/chat'',
               headers = [(js ''Content-Type'', js ''application/json'')],
               body = Some (JObject [(js ''question'', JString (js ''Hi''))])\<rparr>],
            chat_pending = 1, ping_pending = 0, console = [ConsoleError (js ''Error:'') TypeError]\<rparr>
   \<and> JString (js ''Sorry, there was an error processing your request. Please try again.'')
       \<noteq> JString (js ''Sorry, I could not process your request.'')"
  by (simp add: handleSendMessage_resume_def handleSendMessage_try_def
      handleSendMessage_catch_def error_notice_def ok_def handleSendMessage_begin_def chat_request_def initial_def API_URL_def
      trim_def js_def isWhiteSpace_def)

text \<open>
  Claim C5, amended. When the request resolves with a status in 200 to 299 and the body
  parses to a JSON value other than \<open>null\<close> that has no answer field (the object \<open>{}\<close>
  for one), the rest of the handler appends the assistant message
  "Sorry, I could not process your request." and clears the loading flag.
\<close>

theorem missing_answer_fallback:
  "ok r \<Longrightarrow> json r = Inr data \<Longrightarrow> data \<noteq> JNull \<Longrightarrow> answer_field data = None \<Longrightarrow>
     handleSendMessage_resume (Resolved r) now w =
       Inr (w\<lparr>messages := messages w @
                [\<lparr>text = JString (js ''Sorry, I could not process your request.''),
                  sender = AI, timestamp = now\<rparr>],
              isLoading := False\<rparr>)"
  by (cases data) (auto simp: handleSendMessage_resume_def handleSendMessage_try_def
      fallback_notice_def)

theorem missing_answer_fallback_witness:
  "ok \<lparr>status = 200, json = Inr (JObject [])\<rparr>
   \<and> json \<lparr>status = 200, json = Inr (JObject [])\<rparr> = Inr (JObject [])
   \<and> JObject [] \<noteq> JNull
   \<and> answer_field (JObject []) = None
   \<and> handleSendMessage_resume (Resolved \<lparr>status = 200, json = Inr (JObject [])\<rparr>) 2
        (handleSendMessage_begin 1 ((initial None)\<lparr>inputMessage := js ''Hi''\<rparr>)) =
       Inr \<lparr>messages =
              [\<lparr>text = JString (js ''Hi''), sender = User, timestamp = 1\<rparr>,
               \<lparr>text = JString (js ''Sorry, I could not process your request.''),
                sender = AI, timestamp = 2\<rparr>],
            inputMessage = [], isLoading = False, isServerAwake = False,
            env_API_URL = None,
            requests = [\<lparr>method = POST, url = js ''http://localhost:3001/chat'',
               headers = [(js ''Content-Type'', js ''application/json'')],
               body = Some (JObject [(js ''question'', JString (js ''Hi''))])\<rparr>],
            chat_pending = 1, ping_pending = 0, console = []\<rparr>"
  using missing_answer_fallback
      [of "\<lparr>status = 200, json = Inr (JObject [])\<rparr>" "JObject []" 2
        "handleSendMessage_begin 1 ((initial None)\<lparr>inputMessage := js ''Hi''\<rparr>)"]
  by (simp add: ok_def handleSendMessage_begin_def chat_request_def initial_def API_URL_def
      trim_def js_def isWhiteSpace_def)

text \<open>
  Claim C10. When the request resolves with a status in 200 to 299 and the body has an
  answer field whose value is falsy (the empty string, \<open>null\<close>, \<open>0\<close> or \<open>false\<close>), the
  rest of the handler appends the assistant message
  "Sorry, I could not process your request.", not the answer.
\<close>

theorem falsy_answer_fallback:
  "ok r \<Longrightarrow> json r = Inr data \<Longrightarrow> answer_field data = Some v \<Longrightarrow>
   v \<in> {JString [], JNull, JNumber (Num 0), JBool False} \<Longrightarrow>
     handleSendMessage_resume (Resolved r) now w =
       Inr (w\<lparr>messages := messages w @
                [\<lparr>text = JString (js ''Sorry, I could not process your request.''),
                  sender = AI, timestamp = now\<rparr>],
              isLoading := False\<rparr>)"
  by (cases data) (auto simp: handleSendMessage_resume_def handleSendMessage_try_def
      fallback_notice_def)

theorem falsy_answer_fallback_witness:
  "ok \<lparr>status = 200, json = Inr (JObject [(js ''answer'', JString [])])\<rparr>
   \<and> json \<lparr>status = 200, json = Inr (JObject [(js ''answer'', JString [])])\<rparr>
       = Inr (JObject [(js ''answer'', JString [])])
   \<and> answer_field (JObject [(js ''answer'', JString [])]) = Some (JString [])
   \<and> JString [] \<in> {JString [], JNull, JNumber (Num 0), JBool False}
   \<and> handleSendMessage_resume
        (Resolved \<lparr>status = 200, json = Inr (JObject [(js ''answer'', JString [])])\<rparr>) 2
        (handleSendMessage_begin 1 ((initial None)\<lparr>inputMessage := js ''Hi''\<rparr>)) =
       Inr \<lparr>messages =
              [\<lparr>text = JString (js ''Hi''), sender = User, timestamp = 1\<rparr>,
               \<lparr>text = JString (js ''Sorry, I could not process your request.''),
                sender = AI, timestamp = 2\<rparr>],
            inputMessage = [], isLoading = False, isServerAwake = False,
            env_API_URL = None,
            requests = [\<lparr>method = POST, url = js ''http://localhost:3001/chat'',
               headers = [(js ''Content-Type'', js ''application/json'')],
               body = Some (JObject [(js ''question'', JString (js ''Hi''))])\<rparr>],
            chat_pending = 1, ping_pending = 0, console = []\<rparr>"
  using falsy_answer_fallback
      [of "\<lparr>status = 200, json = Inr (JObject [(js ''answer'', JString [])])\<rparr>"
        "JObject [(js ''answer'', JString [])]" "JString []" 2
        "handleSendMessage_begin 1 ((initial None)\<lparr>inputMessage := js ''Hi''\<rparr>)"]
  by (simp add: ok_def handleSendMessage_begin_def chat_request_def initial_def API_URL_def
      trim_def js_def isWhiteSpace_def)

section \<open>Sessions: auxiliary facts\<close>

lemma run_append:
  "run (es @ fs) w = (case run es w of None \<Rightarrow> None | Some w' \<Rightarrow> run fs w')"
  by (induction es arbitrary: w) (auto split: option.splits)

lemma run_snoc:
  "run (es @ [e]) w = Some w' \<longleftrightarrow> (\<exists>v. run es w = Some v \<and> fire e v = Some w')"
  by (auto simp: run_append split: option.splits)

lemma alternating_snoc:
  "alternating s (xs @ [x]) =
     (alternating s xs \<and> x = (if even (length xs) then s else opposite s))"
proof (induction xs arbitrary: s)
  case Nil
  show ?case by auto
next
  case (Cons y ys)
  show ?case by (cases s) (auto simp: Cons.IH)
qed

lemma alternating_last:
  "alternating s xs \<Longrightarrow> xs \<noteq> [] \<Longrightarrow>
     last xs = (if even (length xs) then opposite s else s)"
proof (induction xs arbitrary: s)
  case Nil
  then show ?case by simp
next
  case (Cons y ys)
  show ?case
  proof (cases ys)
    case Nil
    with Cons.prems show ?thesis by simp
  next
    case (Cons z zs)
    with Cons.prems Cons.IH [of "opposite s"] show ?thesis by (cases s) auto
  qed
qed

lemma alternating_count:
  "alternating s xs \<Longrightarrow>
     length (filter (\<lambda>x. x = s) xs) =
       length (filter (\<lambda>x. x = opposite s) xs) + (if even (length xs) then 0 else 1)"
proof (induction xs arbitrary: s)
  case Nil
  show ?case by simp
next
  case (Cons y ys)
  from Cons.prems have y: "y = s" and alt: "alternating (opposite s) ys" by auto
  from Cons.IH [OF alt] y show ?case by (cases s) auto
qed

lemma resume_appends:
  "\<exists>w' m. handleSendMessage_resume res now w = Inr w' \<and> messages w' = messages w @ [m]
     \<and> sender m = AI \<and> \<not> isLoading w' \<and> chat_pending w' = chat_pending w"
  by (simp add: handleSendMessage_resume_def handleSendMessage_try_def
      handleSendMessage_catch_def Let_def split: fetch_result.splits sum.splits)

lemma resume_frame:
  "handleSendMessage_resume res now w = Inr w' \<Longrightarrow>
     env_API_URL w' = env_API_URL w \<and> isServerAwake w' = isServerAwake w
     \<and> ping_pending w' = ping_pending w \<and> requests w' = requests w"
  by (auto simp: handleSendMessage_resume_def handleSendMessage_try_def
      handleSendMessage_catch_def Let_def split: fetch_result.splits sum.splits if_splits)

lemma fire_ChatSettled:
  "0 < chat_pending w \<Longrightarrow>
     \<exists>w' m. fire (ChatSettled res now) w = Some w' \<and> messages w' = messages w @ [m]
       \<and> sender m = AI \<and> \<not> isLoading w' \<and> chat_pending w' = chat_pending w - 1"
  using resume_appends [of res now "w\<lparr>chat_pending := chat_pending w - 1\<rparr>"] by auto

lemma ping_resume_frame:
  "\<exists>w'. wakeUpServer_resume res w = Inr w' \<and> messages w' = messages w
     \<and> isLoading w' = isLoading w \<and> chat_pending w' = chat_pending w
     \<and> inputMessage w' = inputMessage w \<and> requests w' = requests w
     \<and> env_API_URL w' = env_API_URL w \<and> ping_pending w' = ping_pending w
     \<and> isServerAwake w' = (isServerAwake w \<or> (\<exists>r. res = Resolved r \<and> ok r))"
  by (auto simp: wakeUpServer_resume_def wakeUpServer_try_def split: fetch_result.splits)

lemma fire_PingSettled:
  "fire (PingSettled res) w = Some w' \<Longrightarrow>
     messages w' = messages w \<and> isLoading w' = isLoading w
     \<and> chat_pending w' = chat_pending w \<and> requests w' = requests w
     \<and> env_API_URL w' = env_API_URL w
     \<and> ping_pending w = Suc (ping_pending w')
     \<and> isServerAwake w' = (isServerAwake w \<or> (\<exists>r. res = Resolved r \<and> ok r))"
  using ping_resume_frame [of res "w\<lparr>ping_pending := ping_pending w - 1\<rparr>"]
  by (auto split: if_splits)

lemma begin_noop:
  "trim (inputMessage w) = [] \<or> isLoading w \<Longrightarrow> handleSendMessage_begin now w = w"
  by (auto simp: handleSendMessage_begin_def)

lemma begin_go:
  "trim (inputMessage w) \<noteq> [] \<Longrightarrow> \<not> isLoading w \<Longrightarrow>
     messages (handleSendMessage_begin now w) =
       messages w @ [\<lparr>text = JString (inputMessage w), sender = User, timestamp = now\<rparr>]
     \<and> isLoading (handleSendMessage_begin now w)
     \<and> chat_pending (handleSendMessage_begin now w) = Suc (chat_pending w)"
  by (simp add: handleSendMessage_begin_def)

lemma fire_messages:
  assumes inv: "chat_inv w" and f: "fire e w = Some w'"
  shows "chat_inv w' \<and>
     (messages w' = messages w
      \<or> (\<exists>m. messages w' = messages w @ [m]
            \<and> sender m = (if messages w = [] then User
                           else opposite (sender (last (messages w))))))"
proof (cases e)
  case (SetInputMessage t)
  with f have "w' = w\<lparr>inputMessage := t\<rparr>" by simp
  with inv show ?thesis by (simp add: chat_inv_def)
next
  case (SendMessage now)
  with f have w': "w' = handleSendMessage_begin now w" by simp
  show ?thesis
  proof (cases "trim (inputMessage w) = [] \<or> isLoading w")
    case True
    then have "w' = w" unfolding w' by (rule begin_noop)
    with inv show ?thesis by simp
  next
    case False
    then have go: "messages w' = messages w @
          [\<lparr>text = JString (inputMessage w), sender = User, timestamp = now\<rparr>]"
        "isLoading w'" "chat_pending w' = Suc (chat_pending w)"
      unfolding w' using begin_go [of w now] by simp_all
    from inv False have alt: "alternating User (map sender (messages w))"
      and ev: "even (length (messages w))" and p: "chat_pending w = 0"
      by (simp_all add: chat_inv_def)
    have lst: "messages w \<noteq> [] \<Longrightarrow> sender (last (messages w)) = AI"
      using alternating_last [OF alt] ev by (simp add: last_map)
    have 1: "chat_inv w'"
      using go alt ev p by (simp add: chat_inv_def alternating_snoc)
    have 2: "sender \<lparr>text = JString (inputMessage w), sender = User, timestamp = now\<rparr>
        = (if messages w = [] then User else opposite (sender (last (messages w))))"
      using lst by simp
    from 1 2 go(1) show ?thesis by blast
  qed
next
  case (ChatSettled res now)
  with f have pos: "0 < chat_pending w" by (simp split: if_splits)
  with inv have ld: "isLoading w" and od: "odd (length (messages w))"
    and alt: "alternating User (map sender (messages w))" and p: "chat_pending w = 1"
    by (simp_all add: chat_inv_def split: if_splits)
  from od have ne: "messages w \<noteq> []" by auto
  have lst: "sender (last (messages w)) = User"
    using alternating_last [OF alt] od ne by (simp add: last_map)
  from fire_ChatSettled [OF pos, of res now] f ChatSettled
  obtain m where m: "messages w' = messages w @ [m]" "sender m = AI" "\<not> isLoading w'"
    "chat_pending w' = chat_pending w - 1" by auto
  have 1: "chat_inv w'"
    using m alt od p by (simp add: chat_inv_def alternating_snoc)
  have 2: "sender m = (if messages w = [] then User
      else opposite (sender (last (messages w))))"
    using m(2) ne lst by simp
  from 1 2 m(1) show ?thesis by blast
next
  case (PingSettled res)
  from fire_PingSettled [OF f [unfolded PingSettled]] have "messages w' = messages w"
    "isLoading w' = isLoading w" "chat_pending w' = chat_pending w" by simp_all
  with inv show ?thesis by (simp add: chat_inv_def)
qed

lemma mount_inv: "chat_inv (mount env)"
  by (simp add: chat_inv_def mount_def wakeUpServer_begin_def initial_def)

lemma run_inv: "chat_inv w \<Longrightarrow> run evs w = Some w' \<Longrightarrow> chat_inv w'"
proof (induction evs arbitrary: w)
  case Nil
  then show ?case by simp
next
  case (Cons e es)
  then show ?case by (auto split: option.splits dest: fire_messages)
qed

lemma quiet_fire:
  assumes ld: "isLoading w" and ne: "\<not> is_ChatSettled e" and f: "fire e w = Some w'"
  shows "messages w' = messages w \<and> isLoading w' \<and> chat_pending w' = chat_pending w"
proof (cases e)
  case (SetInputMessage t)
  with f have "w' = w\<lparr>inputMessage := t\<rparr>" by simp
  with ld show ?thesis by simp
next
  case (SendMessage now)
  with f have "w' = handleSendMessage_begin now w" by simp
  with ld have "w' = w" by (simp add: begin_noop)
  with ld show ?thesis by simp
next
  case (ChatSettled res now)
  with ne show ?thesis by simp
next
  case (PingSettled res)
  from fire_PingSettled [OF f [unfolded PingSettled]] ld show ?thesis by simp
qed

lemma quiet_run:
  "isLoading w \<Longrightarrow> \<forall>e\<in>set evs. \<not> is_ChatSettled e \<Longrightarrow> run evs w = Some w' \<Longrightarrow>
     messages w' = messages w \<and> isLoading w' \<and> chat_pending w' = chat_pending w"
proof (induction evs arbitrary: w)
  case Nil
  then show ?case by simp
next
  case (Cons e es)
  from Cons.prems(3) obtain v where v: "fire e w = Some v" and r: "run es v = Some w'"
    by (auto split: option.splits)
  from Cons.prems(2) have ne: "\<not> is_ChatSettled e" and nes: "\<forall>e\<in>set es. \<not> is_ChatSettled e"
    by simp_all
  from quiet_fire [OF Cons.prems(1) ne v]
  have "messages v = messages w" "isLoading v" "chat_pending v = chat_pending w" by simp_all
  with Cons.IH [OF _ nes r] show ?case by simp
qed

lemma fire_ping_frame:
  assumes f: "fire e w = Some w'" and np: "\<forall>res. e \<noteq> PingSettled res"
  shows "env_API_URL w' = env_API_URL w \<and> isServerAwake w' = isServerAwake w
     \<and> ping_pending w' = ping_pending w
     \<and> filter (\<lambda>q. method q = GET) (requests w') = filter (\<lambda>q. method q = GET) (requests w)"
proof (cases e)
  case (SetInputMessage t)
  with f have "w' = w\<lparr>inputMessage := t\<rparr>" by simp
  then show ?thesis by simp
next
  case (SendMessage now)
  with f have "w' = handleSendMessage_begin now w" by simp
  then show ?thesis by (simp add: handleSendMessage_begin_def chat_request_def)
next
  case (ChatSettled res now)
  with f obtain v where "handleSendMessage_resume res now
      (w\<lparr>chat_pending := chat_pending w - 1\<rparr>) = Inr w'"
    by (auto split: if_splits sum.splits)
  from resume_frame [OF this] show ?thesis by simp
next
  case (PingSettled res)
  with np show ?thesis by simp
qed

lemma ping_inv:
  "run evs (mount env) = Some w \<Longrightarrow>
     env_API_URL w = env
     \<and> filter (\<lambda>q. method q = GET) (requests w) = [ping_request (initial env)]
     \<and> (ping_pending w = 1 \<and> \<not> isServerAwake w \<and> (\<forall>res. PingSettled res \<notin> set evs)
        \<or> ping_pending w = 0
          \<and> (\<exists>res. (\<forall>res'. PingSettled res' \<in> set evs \<longleftrightarrow> res' = res)
                \<and> isServerAwake w = (\<exists>r. res = Resolved r \<and> ok r)))"
proof (induction evs arbitrary: w rule: rev_induct)
  case Nil
  then have "w = mount env" by simp
  then show ?case by (simp add: mount_def wakeUpServer_begin_def initial_def ping_request_def)
next
  case (snoc e es)
  from snoc.prems obtain v where v: "run es (mount env) = Some v" and f: "fire e v = Some w"
    by (auto simp: run_snoc)
  note IH = snoc.IH [OF v]
  show ?case
  proof (cases "\<exists>res. e = PingSettled res")
    case False
    then have np: "\<forall>res. e \<noteq> PingSettled res" by simp
    from fire_ping_frame [OF f np] IH np show ?thesis by auto
  next
    case True
    then obtain res where e: "e = PingSettled res" by blast
    note fp = fire_PingSettled [OF f [unfolded e]]
    from fp IH have pend: "ping_pending v = 1" "\<not> isServerAwake v"
      "\<forall>res. PingSettled res \<notin> set es" by auto
    from fp pend have a: "ping_pending w = 0"
      "isServerAwake w = (\<exists>r. res = Resolved r \<and> ok r)" by simp_all
    from pend(3) e have b: "\<forall>res'. PingSettled res' \<in> set (es @ [e]) \<longleftrightarrow> res' = res"
      by auto
    from fp IH have c: "env_API_URL w = env"
      "filter (\<lambda>q. method q = GET) (requests w) = [ping_request (initial env)]" by simp_all
    from a b c show ?thesis by blast
  qed
qed

section \<open>The submission cycle\<close>

text \<open>
  Claim C1. A submission that passes the guard (the trim of the input is not empty, no
  reply is awaited) runs to its end however the request settles: rejected, resolved
  with any status, with a body that parses or one that does not. Whatever else happens
  in between (the input changes, further send attempts, the probe settles), when the
  request settles the transcript is the old one, the user message and exactly one
  assistant message, and the loading flag is false.
\<close>

theorem submission_cycle:
  assumes "trim (inputMessage w) \<noteq> []" and "\<not> isLoading w"
    and "\<forall>e\<in>set evs. \<not> is_ChatSettled e"
    and "run (SendMessage t1 # evs) w = Some w1"
  shows "\<exists>w2 m. fire (ChatSettled res t2) w1 = Some w2
     \<and> messages w2 = messages w @
          [\<lparr>text = JString (inputMessage w), sender = User, timestamp = t1\<rparr>, m]
     \<and> sender m = AI \<and> \<not> isLoading w2"
proof -
  let ?v = "handleSendMessage_begin t1 w"
  from assms(4) have r: "run evs ?v = Some w1" by simp
  from begin_go [OF assms(1,2), of t1]
  have v: "messages ?v = messages w @
      [\<lparr>text = JString (inputMessage w), sender = User, timestamp = t1\<rparr>]"
    "isLoading ?v" "chat_pending ?v = Suc (chat_pending w)" by simp_all
  from quiet_run [OF v(2) assms(3) r] v
  have w1: "messages w1 = messages w @
      [\<lparr>text = JString (inputMessage w), sender = User, timestamp = t1\<rparr>]"
    "0 < chat_pending w1" by simp_all
  from fire_ChatSettled [OF w1(2), of res t2]
  obtain w2 m where "fire (ChatSettled res t2) w1 = Some w2"
    "messages w2 = messages w1 @ [m]" "sender m = AI" "\<not> isLoading w2" by blast
  with w1(1) show ?thesis by (simp del: fire.simps)
qed

theorem submission_cycle_witness:
  "trim (inputMessage typed_Hi) \<noteq> []
   \<and> \<not> isLoading typed_Hi
   \<and> \<not> (\<exists>e\<in>set meanwhile. is_ChatSettled e)
   \<and> run (SendMessage 1 # meanwhile) typed_Hi = Some before_settling
   \<and> (\<exists>w2 m. fire (ChatSettled (Resolved \<lparr>status = 200, json = Inl SyntaxError\<rparr>) 3) before_settling = Some w2
        \<and> messages w2 = messages typed_Hi @
             [\<lparr>text = JString (inputMessage typed_Hi), sender = User, timestamp = 1\<rparr>, m]
        \<and> sender m = AI \<and> \<not> isLoading w2)"
proof -
  have 1: "trim (inputMessage typed_Hi) \<noteq> []"
    by (simp add: typed_Hi_def trim_def js_def isWhiteSpace_def)
  have 2: "\<not> isLoading typed_Hi"
    by (simp add: typed_Hi_def mount_def initial_def wakeUpServer_begin_def)
  have 3: "\<forall>e\<in>set meanwhile. \<not> is_ChatSettled e"
    by (simp add: meanwhile_def)
  have 4: "run (SendMessage 1 # meanwhile) typed_Hi = Some before_settling"
    by (simp add: typed_Hi_def meanwhile_def before_settling_def mount_def initial_def wakeUpServer_begin_def ping_request_def
        API_URL_def handleSendMessage_begin_def chat_request_def trim_def js_def
        isWhiteSpace_def wakeUpServer_resume_def wakeUpServer_try_def
        handleSendMessage_resume_def handleSendMessage_try_def handleSendMessage_catch_def
        error_notice_def fallback_notice_def ok_def)
  from submission_cycle [OF 1 2 3 4, of "Resolved \<lparr>status = 200, json = Inl SyntaxError\<rparr>" 3] 1 2 3 4
  show ?thesis by blast
qed

text \<open>
  Claim C8. In every state a session can reach: when no reply is awaited, the
  transcript is empty or ends with an assistant message, there are as many assistant
  messages as user messages, and no request is in flight; when a reply is awaited, the
  transcript ends with the one user message that has no reply yet, exactly one request
  is in flight, and whichever way that request settles, the handler appends exactly
  one assistant message and clears the loading flag.
\<close>

theorem no_dangling_user_message:
  assumes "run evs (mount env) = Some w"
  shows "(\<not> isLoading w \<longrightarrow>
            (messages w = [] \<or> sender (last (messages w)) = AI)
            \<and> length (filter (\<lambda>m. sender m = User) (messages w))
                = length (filter (\<lambda>m. sender m = AI) (messages w))
            \<and> chat_pending w = 0)
       \<and> (isLoading w \<longrightarrow>
            messages w \<noteq> [] \<and> sender (last (messages w)) = User
            \<and> length (filter (\<lambda>m. sender m = User) (messages w))
                = Suc (length (filter (\<lambda>m. sender m = AI) (messages w)))
            \<and> chat_pending w = 1
            \<and> (\<forall>res now. \<exists>w' m. fire (ChatSettled res now) w = Some w'
                  \<and> messages w' = messages w @ [m] \<and> sender m = AI \<and> \<not> isLoading w'))"
proof -
  from run_inv [OF mount_inv assms]
  have alt: "alternating User (map sender (messages w))"
    and par: "isLoading w = odd (length (messages w))"
    and pen: "chat_pending w = (if isLoading w then 1 else 0)"
    by (auto simp: chat_inv_def)
  have lst: "messages w \<noteq> [] \<Longrightarrow>
      sender (last (messages w)) = (if isLoading w then User else AI)"
    using alternating_last [OF alt] par by (simp add: last_map)
  have cnt: "length (filter (\<lambda>m. sender m = User) (messages w)) =
      length (filter (\<lambda>m. sender m = AI) (messages w)) + (if isLoading w then 1 else 0)"
    using alternating_count [OF alt] par by (simp add: filter_map comp_def)
  have settle: "isLoading w \<Longrightarrow> \<exists>w' m. fire (ChatSettled res now) w = Some w'
      \<and> messages w' = messages w @ [m] \<and> sender m = AI \<and> \<not> isLoading w'" for res now
    using fire_ChatSettled [of w res now] pen by auto
  from par have ne: "isLoading w \<Longrightarrow> messages w \<noteq> []" by auto
  show ?thesis
  proof (cases "isLoading w")
    case True
    with lst cnt pen ne settle show ?thesis by simp
  next
    case False
    with lst cnt pen show ?thesis by (cases "messages w = []") simp_all
  qed
qed

theorem no_dangling_user_message_witness:
  "run failed_cycle (mount None) = Some after_failed_cycle
   \<and> \<not> isLoading after_failed_cycle
   \<and> (messages after_failed_cycle = []
       \<or> sender (last (messages after_failed_cycle)) = AI)
   \<and> length (filter (\<lambda>m. sender m = User) (messages after_failed_cycle))
       = length (filter (\<lambda>m. sender m = AI) (messages after_failed_cycle))
   \<and> chat_pending after_failed_cycle = 0
   \<and> run open_cycle (mount None) = Some awaiting_reply
   \<and> isLoading awaiting_reply
   \<and> messages awaiting_reply \<noteq> []
   \<and> sender (last (messages awaiting_reply)) = User
   \<and> length (filter (\<lambda>m. sender m = User) (messages awaiting_reply))
       = Suc (length (filter (\<lambda>m. sender m = AI) (messages awaiting_reply)))
   \<and> chat_pending awaiting_reply = 1
   \<and> (\<forall>res now. \<exists>w' m. fire (ChatSettled res now) awaiting_reply = Some w'
         \<and> messages w' = messages awaiting_reply @ [m] \<and> sender m = AI \<and> \<not> isLoading w')"
proof -
  have r1: "run failed_cycle (mount None) = Some after_failed_cycle"
    by (simp add: failed_cycle_def after_failed_cycle_def mount_def initial_def wakeUpServer_begin_def ping_request_def
        API_URL_def handleSendMessage_begin_def chat_request_def trim_def js_def
        isWhiteSpace_def wakeUpServer_resume_def wakeUpServer_try_def
        handleSendMessage_resume_def handleSendMessage_try_def handleSendMessage_catch_def
        error_notice_def fallback_notice_def ok_def)
  have l1: "\<not> isLoading after_failed_cycle"
    by (simp add: after_failed_cycle_def)
  have r2: "run open_cycle (mount None) = Some awaiting_reply"
    by (simp add: open_cycle_def awaiting_reply_def mount_def initial_def wakeUpServer_begin_def ping_request_def
        API_URL_def handleSendMessage_begin_def chat_request_def trim_def js_def
        isWhiteSpace_def wakeUpServer_resume_def wakeUpServer_try_def
        handleSendMessage_resume_def handleSendMessage_try_def handleSendMessage_catch_def
        error_notice_def fallback_notice_def ok_def)
  have l2: "isLoading awaiting_reply"
    by (simp add: awaiting_reply_def)
  from no_dangling_user_message [OF r1] no_dangling_user_message [OF r2] r1 l1 r2 l2
  show ?thesis by blast
qed

text \<open>
  Claim C9. In every state a session can reach, the senders of the transcript alternate
  and start with the user; and every event leaves the transcript as it is or appends
  one message whose sender is the opposite of the last one (the user, for an empty
  transcript). No message is removed or moved.
\<close>

theorem transcript_alternates:
  "run evs (mount env) = Some w \<Longrightarrow>
     alternating User (map sender (messages w))
     \<and> (\<forall>e w'. fire e w = Some w' \<longrightarrow>
           messages w' = messages w
           \<or> (\<exists>m. messages w' = messages w @ [m]
                 \<and> sender m = (if messages w = [] then User
                                else opposite (sender (last (messages w))))))"
  using run_inv [OF mount_inv, of evs env w] fire_messages [of w]
  by (auto simp: chat_inv_def)

theorem transcript_alternates_witness:
  "run failed_cycle (mount None) = Some after_failed_cycle
   \<and> alternating User (map sender (messages after_failed_cycle))
   \<and> fire (SendMessage 3) after_failed_cycle
       = Some (handleSendMessage_begin 3 after_failed_cycle)
   \<and> (messages (handleSendMessage_begin 3 after_failed_cycle) = messages after_failed_cycle
       \<or> (\<exists>m. messages (handleSendMessage_begin 3 after_failed_cycle) =
               messages after_failed_cycle @ [m]
             \<and> sender m =
                 (if messages after_failed_cycle = [] then User
                  else opposite (sender (last (messages after_failed_cycle))))))"
proof -
  have r: "run failed_cycle (mount None) = Some after_failed_cycle"
    by (simp add: failed_cycle_def after_failed_cycle_def mount_def initial_def wakeUpServer_begin_def ping_request_def
        API_URL_def handleSendMessage_begin_def chat_request_def trim_def js_def
        isWhiteSpace_def wakeUpServer_resume_def wakeUpServer_try_def
        handleSendMessage_resume_def handleSendMessage_try_def handleSendMessage_catch_def
        error_notice_def fallback_notice_def ok_def)
  have f: "fire (SendMessage 3) after_failed_cycle
      = Some (handleSendMessage_begin 3 after_failed_cycle)"
    by (simp only: fire.simps)
  from transcript_alternates [OF r] f r show ?thesis by blast
qed

section \<open>The readiness probe\<close>

text \<open>
  Claim C7. Mounting issues one GET to \<open>/ping\<close>, and no other is issued in the session.
  Once that request has settled, \<open>isServerAwake\<close> is true in every later state if and
  only if it resolved with a status in 200 to 299; as long as it has not settled the
  flag is false. The rest of \<open>wakeUpServer\<close> always ends with a fulfilled promise.
\<close>

theorem readiness_probe:
  assumes "run evs (mount env) = Some w"
  shows "(\<forall>res. PingSettled res \<in> set evs \<longrightarrow>
            (isServerAwake w \<longleftrightarrow> (\<exists>r. res = Resolved r \<and> ok r)))
     \<and> ((\<forall>res. PingSettled res \<notin> set evs) \<longrightarrow> \<not> isServerAwake w)
     \<and> filter (\<lambda>q. method q = GET) (requests w) =
         [\<lparr>method = GET, url = API_URL w @ js ''/ping'', headers = [], body = None\<rparr>]
     \<and> (\<forall>res. \<exists>w'. wakeUpServer_resume res w = Inr w')"
proof -
  from ping_inv [OF assms] have env: "env_API_URL w = env"
    and gets: "filter (\<lambda>q. method q = GET) (requests w) = [ping_request (initial env)]"
    and st: "ping_pending w = 1 \<and> \<not> isServerAwake w \<and> (\<forall>res. PingSettled res \<notin> set evs)
        \<or> ping_pending w = 0
          \<and> (\<exists>res. (\<forall>res'. PingSettled res' \<in> set evs \<longleftrightarrow> res' = res)
                \<and> isServerAwake w = (\<exists>r. res = Resolved r \<and> ok r))"
    by blast+
  have url: "ping_request (initial env) =
      \<lparr>method = GET, url = API_URL w @ js ''/ping'', headers = [], body = None\<rparr>"
    using env by (simp add: ping_request_def API_URL_def initial_def)
  have 1: "\<forall>res. PingSettled res \<in> set evs \<longrightarrow>
      (isServerAwake w \<longleftrightarrow> (\<exists>r. res = Resolved r \<and> ok r))"
    using st by auto
  have 2: "(\<forall>res. PingSettled res \<notin> set evs) \<longrightarrow> \<not> isServerAwake w"
    using st by blast
  have 3: "\<forall>res. \<exists>w'. wakeUpServer_resume res w = Inr w'"
    using ping_resume_frame [of _ w] by blast
  from 1 2 3 gets url show ?thesis by simp
qed

theorem readiness_probe_witness:
  "run probe_succeeds (mount None) = Some after_probe_succeeds
   \<and> PingSettled (Resolved \<lparr>status = 204, json = Inl SyntaxError\<rparr>) \<in> set probe_succeeds
   \<and> (\<exists>r. Resolved \<lparr>status = 204, json = Inl SyntaxError\<rparr> = Resolved r \<and> ok r)
   \<and> isServerAwake after_probe_succeeds
   \<and> run probe_fails (mount None) = Some after_probe_fails
   \<and> PingSettled (Resolved \<lparr>status = 503, json = Inl SyntaxError\<rparr>) \<in> set probe_fails
   \<and> \<not> (\<exists>r. Resolved \<lparr>status = 503, json = Inl SyntaxError\<rparr> = Resolved r \<and> ok r)
   \<and> \<not> isServerAwake after_probe_fails
   \<and> filter (\<lambda>q. method q = GET) (requests after_probe_fails) =
       [\<lparr>method = GET, url = API_URL after_probe_fails @ js ''/ping'', headers = [],
         body = None\<rparr>]
   \<and> run [] (mount None) = Some (mount None)
   \<and> (\<forall>res. PingSettled res \<notin> set [])
   \<and> \<not> isServerAwake (mount None)"
proof -
  have a: "run probe_succeeds (mount None) = Some after_probe_succeeds"
    by (simp add: probe_succeeds_def after_probe_succeeds_def mount_def initial_def wakeUpServer_begin_def ping_request_def
        API_URL_def handleSendMessage_begin_def chat_request_def trim_def js_def
        isWhiteSpace_def wakeUpServer_resume_def wakeUpServer_try_def
        handleSendMessage_resume_def handleSendMessage_try_def handleSendMessage_catch_def
        error_notice_def fallback_notice_def ok_def)
  have a': "PingSettled (Resolved \<lparr>status = 204, json = Inl SyntaxError\<rparr>) \<in> set probe_succeeds"
    by (simp add: probe_succeeds_def)
  have a'': "\<exists>r. Resolved \<lparr>status = 204, json = Inl SyntaxError\<rparr> = Resolved r \<and> ok r"
    by (simp add: ok_def)
  have b: "run probe_fails (mount None) = Some after_probe_fails"
    by (simp add: probe_fails_def after_probe_fails_def mount_def initial_def wakeUpServer_begin_def ping_request_def
        API_URL_def handleSendMessage_begin_def chat_request_def trim_def js_def
        isWhiteSpace_def wakeUpServer_resume_def wakeUpServer_try_def
        handleSendMessage_resume_def handleSendMessage_try_def handleSendMessage_catch_def
        error_notice_def fallback_notice_def ok_def)
  have b': "PingSettled (Resolved \<lparr>status = 503, json = Inl SyntaxError\<rparr>) \<in> set probe_fails"
    by (simp add: probe_fails_def)
  have b'': "\<not> (\<exists>r. Resolved \<lparr>status = 503, json = Inl SyntaxError\<rparr> = Resolved r \<and> ok r)"
    by (simp add: ok_def)
  have c: "run [] (mount None) = Some (mount None)"
    by simp
  have c': "\<forall>res. PingSettled res \<notin> set []"
    by simp
  from readiness_probe [OF a] readiness_probe [OF b] readiness_probe [OF c]
    a a' a'' b b' b'' c c'
  show ?thesis by blast
qed

end
